theory Spec2Isabelle
  imports Main "HOL-Library.AList" "HOL-Library.Multiset"
begin

section \<open>TechConnect (app.py): request handlers over an explicit state\<close>

text \<open>
  The handlers of \<^verbatim>\<open>app.py\<close> are embedded as functions from the request and the state
  (session, flashed messages, relational store, upload directories) to a response and the
  new state. An exception that no handler catches is the value \<open>Inl e\<close>.
  The modules \<^verbatim>\<open>post_queries.py\<close>, \<^verbatim>\<open>user_queries.py\<close> and \<^verbatim>\<open>helper.py\<close> are not part of
  the sources at hand; what the handlers need of them is modelled from the specification
  and marked so. Where a query function has the name of a handler it carries the suffix
  \<open>_db\<close>; the handler \<^verbatim>\<open>post\<close> is \<open>post_view\<close>, since \<open>post\<close> names the row type.
  Identifiers of posts and users are natural numbers.
\<close>

subsection \<open>Python values, exceptions, strings\<close>

datatype py_error =
    ValueError string
  | IndexError string
  | KeyError string
  | AttributeError string
  | TypeError string
  | FileNotFoundError string
  | IsADirectoryError string
  | NotADirectoryError string
  | BuildError string

text \<open>\<^verbatim>\<open>str(e)\<close> of an exception.\<close>

fun str_of_error :: "py_error \<Rightarrow> string" where
  "str_of_error (ValueError m) = m"
| "str_of_error (IndexError m) = m"
| "str_of_error (KeyError k) = [CHR 0x27] @ k @ [CHR 0x27]"
| "str_of_error (AttributeError m) = m"
| "str_of_error (TypeError m) = m"
| "str_of_error (FileNotFoundError p) =
     ''[Errno 2] No such file or directory: '' @ [CHR 0x27] @ p @ [CHR 0x27]"
| "str_of_error (IsADirectoryError p) =
     ''[Errno 21] Is a directory: '' @ [CHR 0x27] @ p @ [CHR 0x27]"
| "str_of_error (NotADirectoryError p) =
     ''[Errno 20] Not a directory: '' @ [CHR 0x27] @ p @ [CHR 0x27]"
| "str_of_error (BuildError m) = m"

text \<open>Values held by the session cookie, by a row of the user table and by a form dictionary.\<close>

datatype sval = SInt nat | SStr string | SBool bool

datatype pval = PNone | PStr string | PBool bool | PInt int

type_synonym pydict = "(string \<times> pval) list"

text \<open>\<^verbatim>\<open>str.lower()\<close> on ASCII text.\<close>

definition lower_char :: "char \<Rightarrow> char" where
  "lower_char c =
     (case map_of (zip ''ABCDEFGHIJKLMNOPQRSTUVWXYZ'' ''abcdefghijklmnopqrstuvwxyz'') c of
        Some l \<Rightarrow> l
      | None \<Rightarrow> c)"

definition lower :: "string \<Rightarrow> string" where
  "lower s = map lower_char s"

text \<open>\<^verbatim>\<open>s.rsplit('.', 1)[1]\<close>: the text after the last dot; \<open>IndexError\<close> without a dot.\<close>

definition rsplit_dot_1 :: "string \<Rightarrow> py_error + string" where
  "rsplit_dot_1 s =
     (if CHR ''.'' \<in> set s
      then Inr (rev (takeWhile (\<lambda>c. c \<noteq> CHR ''.'') (rev s)))
      else Inl (IndexError ''list index out of range''))"

text \<open>\<^verbatim>\<open>sep.join(xs)\<close>.\<close>

fun join :: "string \<Rightarrow> string list \<Rightarrow> string" where
  "join sep [] = []"
| "join sep [x] = x"
| "join sep (x # y # ys) = x @ sep @ join sep (y # ys)"

text \<open>Decimal text of a number, as an f-string prints an integer identifier.\<close>

definition digit_char :: "nat \<Rightarrow> char" where
  "digit_char d = ''0123456789'' ! d"

fun str_nat :: "nat \<Rightarrow> string" where
  "str_nat n = (if n < 10 then [digit_char n] else str_nat (n div 10) @ [digit_char (n mod 10)])"

text \<open>\<^verbatim>\<open>os.path.join(directory, name)\<close> on POSIX: an absolute second part replaces the first.\<close>

definition path_join :: "string \<Rightarrow> string \<Rightarrow> string" where
  "path_join d name =
     (case name of
        c # _ \<Rightarrow> if c = CHR ''/'' then name
                 else if d = [] \<or> last d = CHR ''/'' then d @ name else d @ ''/'' @ name
      | [] \<Rightarrow> if d = [] \<or> last d = CHR ''/'' then d else d @ ''/'')"

text \<open>The two upload directories of \<^verbatim>\<open>app.config\<close>.\<close>

definition PROFILE_UPLOADS :: string where
  "PROFILE_UPLOADS = ''uploads/profile_pic_uploads''"

definition POST_UPLOADS :: string where
  "POST_UPLOADS = ''uploads/post_uploads''"

subsection \<open>The relational store and the filesystem\<close>

text \<open>
  A row of the post table: identifier, author, creation order and the seven editable columns
  (each nullable). The column names are the form field names that \<^verbatim>\<open>app.py\<close> reads.
\<close>

record post_values =
  header :: "string option"
  post_type :: "string option"
  host_name :: "string option"
  target_audience :: "string option"
  job_role :: "string option"
  job_level :: "string option"
  post_body :: "string option"

record post =
  post_id :: nat
  posted_by :: "nat option"
  created :: nat
  vals :: post_values

text \<open>
  The tables: posts in insertion order, attachment records (owning post, filename), user rows
  (column name to value) and profile picture records (user, filename).
\<close>

record store =
  post_tbl :: "post list"
  post_file_tbl :: "(nat \<times> string) list"
  user_tbl :: "(nat \<times> pydict) list"
  picfile_tbl :: "(nat \<times> string) list"

datatype fs_entry = RegularFile | Directory

type_synonym filesystem = "(string \<times> fs_entry) list"

subsection \<open>Requests, responses and the handler state\<close>

datatype http_method = GET | POST

text \<open>An uploaded file (\<^verbatim>\<open>FileStorage\<close>); it is truthy exactly when its filename is not empty.\<close>

record upload =
  filename :: string

definition upload_truthy :: "upload \<Rightarrow> bool" where
  "upload_truthy f = (filename f \<noteq> [])"

text \<open>
  A \<^verbatim>\<open>MultiDict\<close> is the list of submitted pairs: \<open>md_get\<close> is the first value of a key,
  \<open>md_getlist\<close> all its values.
\<close>

type_synonym 'a multidict = "(string \<times> 'a) list"

definition md_get :: "'a multidict \<Rightarrow> string \<Rightarrow> 'a option" where
  "md_get m k = map_of m k"

definition md_getlist :: "'a multidict \<Rightarrow> string \<Rightarrow> 'a list" where
  "md_getlist m k = map snd (filter (\<lambda>p. fst p = k) m)"

record request =
  req_method :: http_method
  req_form :: "string multidict"
  req_args :: "string multidict"
  req_files :: "upload multidict"

text \<open>
  \<^verbatim>\<open>url_for('post_file', post_id=..., filename=...)\<close>, kept symbolic: the link to an attachment
  is the pair of post identifier and filename that the handler passes.
\<close>

datatype file_link = PostFileUrl nat string

datatype ctx_val =
    CNone
  | CNat nat
  | CStr string
  | CPost post
  | CPosts "post list"
  | CFiles "(string \<times> file_link) list"
  | CDict pydict

datatype url = UrlFor string "(string \<times> ctx_val) list" | RequestUrl

datatype response =
    Redirect url
  | Render string "(string \<times> ctx_val) list"
  | SendFromDirectory string string

record state =
  session :: "string \<rightharpoonup> sval"
  flashes :: "string list"
  db :: store
  fs :: filesystem
  db_log :: "string list"

definition flash :: "string \<Rightarrow> state \<Rightarrow> state" where
  "flash msg st = st\<lparr>flashes := flashes st @ [msg]\<rparr>"

text \<open>Every call of a query function is recorded by its name, in order.\<close>

definition log_call :: "string \<Rightarrow> state \<Rightarrow> state" where
  "log_call name st = st\<lparr>db_log := db_log st @ [name]\<rparr>"

text \<open>\<^verbatim>\<open>session.get('user_id')\<close>; the application only ever stores an integer there.\<close>

definition session_user_id :: "state \<Rightarrow> nat option" where
  "session_user_id st = (case session st ''user_id'' of Some (SInt u) \<Rightarrow> Some u | _ \<Rightarrow> None)"

text \<open>\<^verbatim>\<open>session.pop(key)\<close> raises \<open>KeyError\<close> on a missing key.\<close>

definition session_pop :: "string \<Rightarrow> state \<Rightarrow> py_error + state" where
  "session_pop k st =
     (if session st k = None then Inl (KeyError k)
      else Inr (st\<lparr>session := (session st)(k := None)\<rparr>))"

text \<open>Reading an optional value with a default, and an optional number as a template value.\<close>

definition the_default :: "'a \<Rightarrow> 'a option \<Rightarrow> 'a" where
  "the_default d x = (case x of None \<Rightarrow> d | Some y \<Rightarrow> y)"

definition opt_nat :: "nat option \<Rightarrow> ctx_val" where
  "opt_nat x = (case x of None \<Rightarrow> CNone | Some n \<Rightarrow> CNat n)"

text \<open>
  \<^verbatim>\<open>url_for(endpoint, **values)\<close> raises \<open>BuildError\<close> when a parameter of the endpoint's route
  is not among the values. The routes of \<^verbatim>\<open>app.py\<close> with parameters are
  \<^verbatim>\<open>/profile/<int:user_id>\<close>, \<^verbatim>\<open>/profile_pic/<int:user_id>\<close>, \<^verbatim>\<open>/post/<post_id>/\<close>,
  \<^verbatim>\<open>/edit/<post_id>\<close> and \<^verbatim>\<open>/post_file/<int:post_id>/<filename>\<close>. Where a handler passes
  every parameter of the route, its URL is written \<open>UrlFor\<close> directly.
\<close>

definition route_params :: "string \<Rightarrow> string list" where
  "route_params endpoint =
     (if endpoint = ''profile'' then [''user_id'']
      else if endpoint = ''profile_pic'' then [''user_id'']
      else if endpoint = ''post'' then [''post_id'']
      else if endpoint = ''edit_post'' then [''post_id'']
      else if endpoint = ''post_file'' then [''post_id'', ''filename'']
      else [])"

definition build_error :: "string \<Rightarrow> string" where
  "build_error endpoint =
     ''Could not build url for endpoint '' @ [CHR 0x27] @ endpoint @ [CHR 0x27] @ ''.''"

definition url_for :: "string \<Rightarrow> (string \<times> ctx_val) list \<Rightarrow> py_error + url" where
  "url_for endpoint values =
     (if list_all (\<lambda>p. p \<in> set (map fst values)) (route_params endpoint)
      then Inr (UrlFor endpoint values)
      else Inl (BuildError (build_error endpoint)))"

subsection \<open>Session gate and file serving (app.py, lines 42-46 and 122-138)\<close>

definition is_logged_in :: "state \<Rightarrow> bool \<times> state" where
  "is_logged_in st =
     (if session st ''user_id'' = None
      then (False, flash ''Session has expired or you are not logged in.'' st)
      else (True, st))"

definition post_file :: "nat \<Rightarrow> string \<Rightarrow> state \<Rightarrow> (py_error + response) \<times> state" where
  "post_file pid fname st =
     (let (ok, st1) = is_logged_in st in
      if \<not> ok then (Inr (Redirect (UrlFor ''index'' [])), st1)
      else (Inr (SendFromDirectory POST_UPLOADS fname), st1))"

subsection \<open>Post queries (post_queries.py)\<close>

text \<open>
  Modelled from the spec: \<^verbatim>\<open>post_db.get_post_info\<close>, which is not among the sources.
  The row of the post with the given identifier, or \<^verbatim>\<open>None\<close>.
\<close>

definition get_post_info :: "store \<Rightarrow> nat \<Rightarrow> post option" where
  "get_post_info d pid = find (\<lambda>p. post_id p = pid) (post_tbl d)"

text \<open>
  Modelled from the spec: \<^verbatim>\<open>post_db.serve_post_file\<close>, which is not among the sources.
  The filenames of the attachment records of a post.
\<close>

definition serve_post_file :: "store \<Rightarrow> nat \<Rightarrow> string list" where
  "serve_post_file d pid = map snd (filter (\<lambda>r. fst r = pid) (post_file_tbl d))"

text \<open>
  Modelled from the spec: the new identifier that \<^verbatim>\<open>post_db.create_post\<close> assigns
  (section 4.4), one more than the largest in use.
\<close>

definition fresh_post_id :: "store \<Rightarrow> nat" where
  "fresh_post_id d = Suc (fold max (map post_id (post_tbl d)) 0)"

text \<open>
  Modelled from the spec: the creation order that \<^verbatim>\<open>post_db.create_post\<close> assigns
  (section 4.4), later than every stored one.
\<close>

definition fresh_created :: "store \<Rightarrow> nat" where
  "fresh_created d = Suc (fold max (map created (post_tbl d)) 0)"

text \<open>
  Modelled from the spec: \<^verbatim>\<open>post_db.create_post\<close>, which is not among the sources
  (section 4.4: given author identity and field values, assigns a new identifier and
  creation order). It returns the new identifier.
\<close>

definition create_post_db :: "store \<Rightarrow> post_values \<Rightarrow> nat option \<Rightarrow> nat \<times> store" where
  "create_post_db d v author =
     (let pid = fresh_post_id d in
      (pid, d\<lparr>post_tbl := post_tbl d @
                 [\<lparr>post_id = pid, posted_by = author, created = fresh_created d, vals = v\<rparr>]\<rparr>))"

text \<open>
  Modelled from the spec: \<^verbatim>\<open>post_db.upload_post_file\<close>, which is not among the sources;
  it adds one attachment record (section 3: filename and owning post).
\<close>

definition upload_post_file :: "store \<Rightarrow> nat \<Rightarrow> string \<Rightarrow> store" where
  "upload_post_file d pid fname = d\<lparr>post_file_tbl := post_file_tbl d @ [(pid, fname)]\<rparr>"

text \<open>
  Modelled from the spec: \<^verbatim>\<open>post_db.delete_post_file\<close>, which is not among the sources;
  it removes the attachment record of that post and filename.
\<close>

definition delete_post_file_db :: "store \<Rightarrow> nat \<Rightarrow> string \<Rightarrow> store" where
  "delete_post_file_db d pid fname =
     d\<lparr>post_file_tbl := filter (\<lambda>r. r \<noteq> (pid, fname)) (post_file_tbl d)\<rparr>"

subsection \<open>Saving an attachment and creating a post (app.py, lines 514-567 and 713-724)\<close>

definition ALLOWED_EXTENSIONS :: "string list" where
  "ALLOWED_EXTENSIONS =
     [''png'', ''jpg'', ''jpeg'', ''webp'', ''pdf'', ''doc'', ''docx'', ''xls'', ''xlsx'']"

definition invalid_file_type :: string where
  "invalid_file_type =
     ''Invalid file type. Allowed: png, jpg, jpeg, webp, pdf, doc, docx, xls, xlsx.''"

text \<open>\<^verbatim>\<open>os.path.dirname\<close> of a path without doubled separators.\<close>

definition dirname :: "string \<Rightarrow> string" where
  "dirname p =
     (if CHR ''/'' \<in> set p
      then (let d = rev (tl (dropWhile (\<lambda>c. c \<noteq> CHR ''/'') (rev p)))
            in if d = [] then ''/'' else d)
      else [])"

text \<open>
  \<^verbatim>\<open>file.save(path)\<close> opens the path for writing: it raises when the path names a directory
  or when its directory does not exist; otherwise the path holds a regular file afterwards.
\<close>

definition file_save :: "string \<Rightarrow> filesystem \<Rightarrow> py_error + filesystem" where
  "file_save path f =
     (if path = [] then Inl (FileNotFoundError path)
      else if last path = CHR ''/'' then Inl (IsADirectoryError path)
      else if map_of f path = Some Directory then Inl (IsADirectoryError path)
      else if dirname path = [] then Inr (AList.update path RegularFile f)
      else case map_of f (dirname path) of
             None \<Rightarrow> Inl (FileNotFoundError path)
           | Some RegularFile \<Rightarrow> Inl (NotADirectoryError path)
           | Some Directory \<Rightarrow> Inr (AList.update path RegularFile f))"

text \<open>
  \<^verbatim>\<open>save_post_file(file, post_id)\<close>. werkzeug's \<^verbatim>\<open>secure_filename\<close> is a library function
  and enters as the parameter \<open>sf\<close>. The result is the new filename (\<^verbatim>\<open>None\<close> for a falsy
  file) or the exception raised, together with the filesystem.
\<close>

definition save_post_file ::
  "(string \<Rightarrow> string) \<Rightarrow> upload \<Rightarrow> nat \<Rightarrow> filesystem \<Rightarrow> (py_error + string option) \<times> filesystem"
where
  "save_post_file sf file pid f =
     (if upload_truthy file \<and> filename file \<noteq> [] then
        (case rsplit_dot_1 (filename file) of
           Inl e \<Rightarrow> (Inl e, f)
         | Inr e \<Rightarrow>
             let ext = lower e in
             if ext \<notin> set ALLOWED_EXTENSIONS then (Inl (ValueError invalid_file_type), f)
             else
               let new_filename = sf (str_nat pid @ ''_'' @ filename file);
                   save_path = path_join POST_UPLOADS new_filename
               in case file_save save_path f of
                    Inl e \<Rightarrow> (Inl e, f)
                  | Inr f' \<Rightarrow> (Inr (Some new_filename), f'))
      else (Inr None, f))"



text \<open>
  The loop of \<^verbatim>\<open>create_post\<close> over the uploaded files, inside its \<^verbatim>\<open>try\<close>: the first
  exception ends it, and what was done before stays done.
\<close>

fun upload_new_files ::
  "(string \<Rightarrow> string) \<Rightarrow> nat \<Rightarrow> upload list \<Rightarrow> state \<Rightarrow> py_error option \<times> state"
where
  "upload_new_files sf pid [] st = (None, st)"
| "upload_new_files sf pid (new_file # rest) st =
     (if filename new_file \<noteq> [] then
        (case save_post_file sf new_file pid (fs st) of
           (Inl e, f') \<Rightarrow> (Some e, st\<lparr>fs := f'\<rparr>)
         | (Inr new_filename, f') \<Rightarrow>
             let st1 = log_call ''post_db.upload_post_file''
                         (st\<lparr>fs := f',
                             db := upload_post_file (db st) pid (the_default [] new_filename)\<rparr>);
                 st2 = flash ''File successfully uploaded.'' st1
             in upload_new_files sf pid rest st2)
      else upload_new_files sf pid rest st)"

definition form_post_values :: "string multidict \<Rightarrow> post_values" where
  "form_post_values form =
     \<lparr>header = md_get form ''header'',
      post_type = md_get form ''post_type'',
      host_name = md_get form ''host_name'',
      target_audience = md_get form ''target_audience'',
      job_role = md_get form ''job_role'',
      job_level = md_get form ''job_level'',
      post_body = md_get form ''post_body''\<rparr>"

definition create_post ::
  "(string \<Rightarrow> string) \<Rightarrow> request \<Rightarrow> state \<Rightarrow> (py_error + response) \<times> state"
where
  "create_post sf req st =
     (let (ok, st1) = is_logged_in st in
      if \<not> ok then (Inr (Redirect (UrlFor ''index'' [])), st1)
      else
        let user_id = session_user_id st1 in
        if req_method req = GET then
          (Inr (Render ''post/create.html''
                  [(''page_title'', CStr ''Create Post''), (''uid'', opt_nat user_id)]), st1)
        else
          let new_files = md_getlist (req_files req) ''file[]'';
              (pid, d') = create_post_db (db st1) (form_post_values (req_form req)) user_id;
              st2 = log_call ''post_db.create_post'' (st1\<lparr>db := d'\<rparr>)
          in
            (case upload_new_files sf pid new_files st2 of
               (Some e, st3) \<Rightarrow> (Inr (Redirect RequestUrl), flash (str_of_error e) st3)
             | (None, st3) \<Rightarrow>
                 (Inr (Redirect (UrlFor ''post'' [(''post_id'', CNat pid)])), st3)))"

subsection \<open>Editing and deleting a post (app.py, lines 570-670 and 727-730)\<close>

text \<open>
  Modelled from the spec: \<^verbatim>\<open>post_db.delete_post\<close>, which is not among the sources
  (section 4.4: cascades to delete all attachments, both store records and underlying file
  data, and the post record itself).
\<close>

definition delete_post_db :: "store \<Rightarrow> filesystem \<Rightarrow> nat \<Rightarrow> store \<times> filesystem" where
  "delete_post_db d f pid =
     (d\<lparr>post_tbl := filter (\<lambda>p. post_id p \<noteq> pid) (post_tbl d),
        post_file_tbl := filter (\<lambda>r. fst r \<noteq> pid) (post_file_tbl d)\<rparr>,
      filter (\<lambda>e. fst e \<notin> set (map (path_join POST_UPLOADS) (serve_post_file d pid))) f)"

text \<open>
  Modelled from the spec: the editable columns of a post with their values, in the order
  in which \<^verbatim>\<open>app.py\<close> passes them to \<^verbatim>\<open>post_db.edit_post\<close>.
\<close>

definition field_list :: "post_values \<Rightarrow> (string \<times> string option) list" where
  "field_list v =
     [(''header'', header v), (''post_type'', post_type v), (''host_name'', host_name v),
      (''target_audience'', target_audience v), (''job_role'', job_role v),
      (''job_level'', job_level v), (''post_body'', post_body v)]"

text \<open>Modelled from the spec: writing one column of a post (section 4.4, applies a changed field).\<close>

definition set_field :: "string \<times> string option \<Rightarrow> post_values \<Rightarrow> post_values" where
  "set_field u v =
     (let n = fst u; x = snd u in
      if n = ''header'' then v\<lparr>header := x\<rparr>
      else if n = ''post_type'' then v\<lparr>post_type := x\<rparr>
      else if n = ''host_name'' then v\<lparr>host_name := x\<rparr>
      else if n = ''target_audience'' then v\<lparr>target_audience := x\<rparr>
      else if n = ''job_role'' then v\<lparr>job_role := x\<rparr>
      else if n = ''job_level'' then v\<lparr>job_level := x\<rparr>
      else if n = ''post_body'' then v\<lparr>post_body := x\<rparr>
      else v)"

text \<open>
  Modelled from the spec: the diff between stored and supplied fields (section 4.4), the
  changed columns with their new values.
\<close>

definition changed_fields :: "post_values \<Rightarrow> post_values \<Rightarrow> (string \<times> string option) list" where
  "changed_fields stored input =
     map snd (filter (\<lambda>p. snd (fst p) \<noteq> snd (snd p)) (zip (field_list stored) (field_list input)))"

text \<open>
  Modelled from the spec: \<^verbatim>\<open>post_db.edit_post\<close>, which is not among the sources
  (section 4.4: computes a diff between supplied fields and stored fields, applies only
  changed fields, and reports which fields changed).
\<close>

definition edit_post_db ::
  "store \<Rightarrow> nat \<Rightarrow> post \<Rightarrow> post_values \<Rightarrow> (string \<times> string option) list \<times> store"
where
  "edit_post_db d pid post_info input =
     (let updates = changed_fields (vals post_info) input in
      (updates,
       d\<lparr>post_tbl :=
           map (\<lambda>p. if post_id p = pid then p\<lparr>vals := fold set_field updates (vals p)\<rparr> else p)
             (post_tbl d)\<rparr>))"

text \<open>\<^verbatim>\<open>delete_post_file(filename)\<close>: \<^verbatim>\<open>os.remove\<close> of the path in the post upload directory.\<close>

definition os_remove :: "string \<Rightarrow> filesystem \<Rightarrow> py_error + filesystem" where
  "os_remove path f =
     (case map_of f path of
        None \<Rightarrow> Inl (FileNotFoundError path)
      | Some Directory \<Rightarrow> Inl (IsADirectoryError path)
      | Some RegularFile \<Rightarrow> Inr (AList.delete path f))"

definition delete_post_file :: "string \<Rightarrow> filesystem \<Rightarrow> py_error + filesystem" where
  "delete_post_file fname f = os_remove (path_join POST_UPLOADS fname) f"

text \<open>The loop over \<^verbatim>\<open>delete_files[]\<close>; each round has its own \<^verbatim>\<open>try\<close>.\<close>

fun delete_files :: "nat \<Rightarrow> string list \<Rightarrow> state \<Rightarrow> state" where
  "delete_files pid [] st = st"
| "delete_files pid (file_name # rest) st =
     (let st1 = log_call ''post_db.delete_post_file''
                  (st\<lparr>db := delete_post_file_db (db st) pid file_name\<rparr>)
      in case delete_post_file file_name (fs st1) of
           Inl err \<Rightarrow>
             delete_files pid rest
               (flash (''Error: failed to delete file(s)'' @ [CHR 0x0A] @ str_of_error err) st1)
         | Inr f' \<Rightarrow>
             delete_files pid rest (flash (''Successfully deleted '' @ file_name) (st1\<lparr>fs := f'\<rparr>)))"

text \<open>\<^verbatim>\<open>bool(input_file and input_file.filename)\<close> for the optional upload of the edit form.\<close>

definition file_given :: "upload option \<Rightarrow> bool" where
  "file_given input_file =
     (case input_file of None \<Rightarrow> False | Some f \<Rightarrow> upload_truthy f \<and> filename f \<noteq> [])"

text \<open>
  The test of the \<^verbatim>\<open>elif\<close>:
  \<^verbatim>\<open>not (updates or input_file or input_file.filename or files_to_delete)\<close>,
  evaluated from the left; reading \<^verbatim>\<open>.filename\<close> of \<^verbatim>\<open>None\<close> raises.
\<close>

definition none_has_no_filename :: string where
  "none_has_no_filename =
     [CHR 0x27] @ ''NoneType'' @ [CHR 0x27] @ '' object has no attribute '' @
     [CHR 0x27] @ ''filename'' @ [CHR 0x27]"

definition no_changes_test ::
  "(string \<times> string option) list \<Rightarrow> upload option \<Rightarrow> string list \<Rightarrow> py_error + bool"
where
  "no_changes_test updates input_file files_to_delete =
     (if updates \<noteq> [] then Inr False
      else case input_file of
             None \<Rightarrow> Inl (AttributeError none_has_no_filename)
           | Some f \<Rightarrow>
               if upload_truthy f then Inr False
               else if filename f \<noteq> [] then Inr False
               else Inr (files_to_delete = []))"

definition flash_updates :: "(string \<times> string option) list \<Rightarrow> state \<Rightarrow> state" where
  "flash_updates updates st =
     fold (\<lambda>u. flash (''Successfully updated '' @ fst u @ ''!'')) updates st"

text \<open>The body of the outer \<^verbatim>\<open>try\<close> of the update branch.\<close>

definition edit_post_try ::
  "(string \<Rightarrow> string) \<Rightarrow> nat \<Rightarrow> post \<Rightarrow> request \<Rightarrow> state \<Rightarrow> (py_error + response) \<times> state"
where
  "edit_post_try sf pid post_info req st =
     (let input = form_post_values (req_form req);
          input_file = md_get (req_files req) ''input_file'';
          files_to_delete = md_getlist (req_form req) ''delete_files[]'';
          st1 = delete_files pid files_to_delete st;
          (updates, d') = edit_post_db (db st1) pid post_info input;
          st2 = log_call ''post_db.edit_post'' (st1\<lparr>db := d'\<rparr>);
          st3 = (if updates \<noteq> [] then flash_updates updates st2 else st2);
          show_post = Inr (Redirect (UrlFor ''post'' [(''post_id'', CNat pid)]))
      in
        if file_given input_file then
          (case save_post_file sf (the_default \<lparr>filename = []\<rparr> input_file) pid (fs st3) of
             (Inl e, f') \<Rightarrow> (Inr (Redirect RequestUrl), flash (str_of_error e) (st3\<lparr>fs := f'\<rparr>))
           | (Inr new_filename, f') \<Rightarrow>
               (show_post,
                flash ''File successfully uploaded.''
                  (log_call ''post_db.upload_post_file''
                     (st3\<lparr>fs := f',
                          db := upload_post_file (db st3) pid (the_default [] new_filename)\<rparr>))))
        else
          (case no_changes_test updates input_file files_to_delete of
             Inl e \<Rightarrow> (Inl e, st3)
           | Inr True \<Rightarrow> (show_post, flash ''No changes were made to the post.'' st3)
           | Inr False \<Rightarrow> (show_post, st3)))"

definition edit_post_update ::
  "(string \<Rightarrow> string) \<Rightarrow> nat \<Rightarrow> post \<Rightarrow> request \<Rightarrow> state \<Rightarrow> (py_error + response) \<times> state"
where
  "edit_post_update sf pid post_info req st =
     (case edit_post_try sf pid post_info req st of
        (Inl e, st') \<Rightarrow>
          (Inr (Redirect (UrlFor ''home'' [])),
           flash (''An unexpected error occurred: '' @ str_of_error e @ ''. Please try again.'') st')
      | (Inr r, st') \<Rightarrow> (Inr r, st'))"

text \<open>\<^verbatim>\<open>str(x)\<close> of an optional string, as an f-string prints it.\<close>

definition py_str :: "string option \<Rightarrow> string" where
  "py_str x = (case x of None \<Rightarrow> ''None'' | Some s \<Rightarrow> s)"

definition none_has_no_get :: string where
  "none_has_no_get =
     [CHR 0x27] @ ''NoneType'' @ [CHR 0x27] @ '' object has no attribute '' @
     [CHR 0x27] @ ''get'' @ [CHR 0x27]"

definition access_denied :: string where
  "access_denied = ''Access denied: Only post author is authorized to edit this post.''"

definition edit_post ::
  "(string \<Rightarrow> string) \<Rightarrow> nat \<Rightarrow> request \<Rightarrow> state \<Rightarrow> (py_error + response) \<times> state"
where
  "edit_post sf pid req st =
     (let (ok, st1) = is_logged_in st in
      if \<not> ok then (Inr (Redirect (UrlFor ''index'' [])), st1)
      else
        let user_id = session_user_id st1;
            st2 = log_call ''post_db.get_post_info'' st1
        in case get_post_info (db st2) pid of
             None \<Rightarrow> (Inl (AttributeError none_has_no_get), st2)
           | Some post_info \<Rightarrow>
               if user_id \<noteq> posted_by post_info then
                 (Inr (Redirect (UrlFor ''post''
                         [(''post_id'', CNat pid), (''uid'', opt_nat user_id)])),
                  flash access_denied st2)
               else if req_method req = GET then
                 (let st3 = log_call ''post_db.serve_post_file'' st2;
                      files = serve_post_file (db st3) pid
                  in (Inr (Render ''post/edit.html''
                             [(''page_title'', CStr (''Edit Post: '' @ py_str (header (vals post_info)))),
                              (''post_id'', CNat pid),
                              (''post_info'', CPost post_info),
                              (''files'', CFiles (map (\<lambda>n. (n, PostFileUrl pid n)) files)),
                              (''uid'', opt_nat user_id)]), st3))
               else if md_get (req_form req) ''submit'' = Some ''Delete Entire Post'' then
                 (let (d', f') = delete_post_db (db st2) (fs st2) pid;
                      st3 = log_call ''post_db.delete_post'' (st2\<lparr>db := d', fs := f'\<rparr>)
                  in (Inr (Redirect (UrlFor ''home'' [])),
                      flash (''Post('' @ py_str (header (vals post_info)) @
                             '') was deleted successfully'') st3))
               else edit_post_update sf pid post_info req st2)"

subsection \<open>Viewing a post and searching posts (app.py, lines 483-511 and 673-709)\<close>

text \<open>
  \<^verbatim>\<open>post(post_id)\<close>. \<^verbatim>\<open>post_db.format_post_values\<close> is not among the sources and the
  specification is silent on it, so it enters as the parameter \<open>fmt\<close>: from the row found
  (or \<^verbatim>\<open>None\<close>) to the formatted row, \<^verbatim>\<open>None\<close>, or an exception. Subscripting \<^verbatim>\<open>None\<close>
  with \<^verbatim>\<open>'header'\<close> raises \<open>TypeError\<close>.
\<close>

definition none_not_subscriptable :: string where
  "none_not_subscriptable =
     [CHR 0x27] @ ''NoneType'' @ [CHR 0x27] @ '' object is not subscriptable''"

definition post_view ::
  "(post option \<Rightarrow> py_error + post option) \<Rightarrow> nat \<Rightarrow> state \<Rightarrow> (py_error + response) \<times> state"
where
  "post_view fmt pid st =
     (let (ok, st1) = is_logged_in st in
      if \<not> ok then (Inr (Redirect (UrlFor ''index'' [])), st1)
      else
        let user_id = session_user_id st1;
            st2 = log_call ''post_db.get_post_info'' st1;
            found = get_post_info (db st2) pid
        in case fmt found of
             Inl e \<Rightarrow> (Inl e, st2)
           | Inr post_info \<Rightarrow>
               let st3 = log_call ''post_db.serve_post_file'' st2;
                   files = serve_post_file (db st3) pid
               in case post_info of
                    None \<Rightarrow> (Inl (TypeError none_not_subscriptable), st3)
                  | Some info \<Rightarrow>
                      (Inr (Render ''post/view.html''
                              [(''page_title'', CStr (py_str (header (vals info)))),
                               (''post_id'', CNat pid),
                               (''post_info'', CPost info),
                               (''file_urls'', CFiles []),
                               (''files'', CFiles (map (\<lambda>n. (n, PostFileUrl pid n)) files)),
                               (''uid'', opt_nat (session_user_id st3))]), st3))"

text \<open>
  Modelled from the spec: ordering by recency descending (section 4.3); recency is the
  creation order of section 3.
\<close>

definition by_recency :: "post list \<Rightarrow> post list" where
  "by_recency ps = rev (sort_key created ps)"

text \<open>
  Modelled from the spec: \<^verbatim>\<open>post_db.get_latest_posts\<close>, which is not among the sources
  (section 4.3: the N most recent posts overall).
\<close>

definition get_latest_posts :: "store \<Rightarrow> nat \<Rightarrow> post list" where
  "get_latest_posts d n = take n (by_recency (post_tbl d))"

text \<open>Modelled from the spec: substring match (section 4.3), by prefixes of the suffixes.\<close>

fun is_prefix :: "string \<Rightarrow> string \<Rightarrow> bool" where
  "is_prefix [] ys = True"
| "is_prefix (x # xs) [] = False"
| "is_prefix (x # xs) (y # ys) = (x = y \<and> is_prefix xs ys)"

text \<open>Modelled from the spec: substring match (section 4.3).\<close>

fun is_substring :: "string \<Rightarrow> string \<Rightarrow> bool" where
  "is_substring xs [] = (xs = [])"
| "is_substring xs (y # ys) = (if is_prefix xs (y # ys) then True else is_substring xs ys)"

text \<open>Modelled from the spec: substring match on a nullable column; a null column matches nothing.\<close>

definition contains_text :: "string \<Rightarrow> string option \<Rightarrow> bool" where
  "contains_text needle column =
     (case column of None \<Rightarrow> False | Some s \<Rightarrow> is_substring needle s)"

text \<open>Modelled from the spec: case-insensitive substring match (section 4.3).\<close>

definition contains_ci :: "string \<Rightarrow> string option \<Rightarrow> bool" where
  "contains_ci needle column = contains_text (lower needle) (map_option lower column)"

text \<open>
  Modelled from the spec: the conjunctive filter of section 4.3. The free-text query is a
  case-insensitive substring of header or body, host name and job role are substrings, post
  type and target audience match exactly; a filter that is \<^verbatim>\<open>None\<close> contributes no clause.
\<close>

definition post_matches ::
  "string option \<Rightarrow> string option \<Rightarrow> string option \<Rightarrow> string option \<Rightarrow> string option \<Rightarrow>
   post \<Rightarrow> bool"
where
  "post_matches user_input audience_value type_value host_value role_value p =
     ((case user_input of None \<Rightarrow> True
       | Some q \<Rightarrow> contains_ci q (header (vals p)) \<or> contains_ci q (post_body (vals p))) \<and>
      (case audience_value of None \<Rightarrow> True | Some a \<Rightarrow> target_audience (vals p) = Some a) \<and>
      (case type_value of None \<Rightarrow> True | Some t \<Rightarrow> post_type (vals p) = Some t) \<and>
      (case host_value of None \<Rightarrow> True | Some h \<Rightarrow> contains_text h (host_name (vals p))) \<and>
      (case role_value of None \<Rightarrow> True | Some r \<Rightarrow> contains_text r (job_role (vals p))))"

text \<open>
  Modelled from the spec: \<^verbatim>\<open>post_db.search_posts\<close>, which is not among the sources
  (section 4.3: the matching posts ordered by recency descending).
\<close>

definition search_posts_db ::
  "store \<Rightarrow> string option \<Rightarrow> string option \<Rightarrow> string option \<Rightarrow> string option \<Rightarrow>
   string option \<Rightarrow> post list"
where
  "search_posts_db d user_input audience_value type_value host_value role_value =
     filter (post_matches user_input audience_value type_value host_value role_value)
       (by_recency (post_tbl d))"

definition search_posts :: "request \<Rightarrow> state \<Rightarrow> (py_error + response) \<times> state" where
  "search_posts req st =
     (let (ok, st1) = is_logged_in st in
      if \<not> ok then (Inr (Redirect (UrlFor ''index'' [])), st1)
      else
        let num_posts = 10;
            st2 = log_call ''post_db.get_latest_posts'' st1;
            recent_posts = get_latest_posts (db st2) num_posts;
            user_input = md_get (req_args req) ''user-input'';
            audience_value = md_get (req_args req) ''target-audience'';
            type_value = md_get (req_args req) ''post-type'';
            type_value = (if type_value = Some ''none'' then None else type_value);
            host_value = md_get (req_args req) ''host-name'';
            role_value = md_get (req_args req) ''job-role'';
            st3 = log_call ''post_db.search_posts'' st2;
            filtered_posts =
              search_posts_db (db st3) user_input audience_value type_value host_value role_value
        in (Inr (Render ''search/posts.html''
                   [(''page_title'', CStr ''Search Posts''),
                    (''recent_posts'', CPosts recent_posts),
                    (''filtered_posts'', CPosts filtered_posts),
                    (''uid'', opt_nat (session_user_id st3))]), st3))"

subsection \<open>User queries and the profile handlers (app.py, lines 236-270 and 407-440)\<close>

text \<open>
  Modelled from the spec: \<^verbatim>\<open>user_db.get_profile\<close>, which is not among the sources; the row
  of the user, or \<^verbatim>\<open>None\<close>.
\<close>

definition get_profile :: "store \<Rightarrow> nat \<Rightarrow> pydict option" where
  "get_profile d uid = map_of (user_tbl d) uid"

text \<open>
  Modelled from the spec: \<^verbatim>\<open>user_db.serve_profile_picture\<close>, which is not among the sources;
  the filename of the user's picture record, or \<^verbatim>\<open>None\<close>. A user identifier that is
  \<^verbatim>\<open>None\<close> matches no row.
\<close>

definition serve_profile_picture :: "store \<Rightarrow> nat option \<Rightarrow> string option" where
  "serve_profile_picture d uid =
     (case uid of None \<Rightarrow> None | Some u \<Rightarrow> map_of (picfile_tbl d) u)"

text \<open>
  Modelled from the spec: \<^verbatim>\<open>user_db.delete_profile_pic\<close>, which is not among the sources;
  it removes the user's picture record.
\<close>

definition delete_profile_pic :: "store \<Rightarrow> nat option \<Rightarrow> store" where
  "delete_profile_pic d uid = d\<lparr>picfile_tbl := filter (\<lambda>r. Some (fst r) \<noteq> uid) (picfile_tbl d)\<rparr>"

text \<open>
  Modelled from the spec: the columns that deletion retains (section 3: deletion nullifies
  attributes but may retain identity; the handler's docstring: all profile data except for
  the name and UID).
\<close>

definition identity_columns :: "string list" where
  "identity_columns = [''uid'', ''first_name'', ''last_name'']"

text \<open>Modelled from the spec: nullifying the attributes of a user row (section 3).\<close>

definition nullify_row :: "pydict \<Rightarrow> pydict" where
  "nullify_row row = map (\<lambda>c. if fst c \<in> set identity_columns then c else (fst c, PNone)) row"

text \<open>
  Modelled from the spec: \<^verbatim>\<open>user_db.delete_user\<close>, which is not among the sources
  (section 3: deletion nullifies attributes but may retain identity).
\<close>

definition delete_user :: "store \<Rightarrow> nat option \<Rightarrow> store" where
  "delete_user d uid =
     d\<lparr>user_tbl := map (\<lambda>r. if Some (fst r) = uid then (fst r, nullify_row (snd r)) else r)
                      (user_tbl d)\<rparr>"

text \<open>\<^verbatim>\<open>os.path.exists(p) and os.path.isfile(p)\<close>.\<close>

definition exists_and_isfile :: "filesystem \<Rightarrow> string \<Rightarrow> bool" where
  "exists_and_isfile f path = (map_of f path \<noteq> None \<and> map_of f path = Some RegularFile)"

text \<open>
  The account deletion message holds a right single quotation mark (U+2019), three bytes
  in UTF-8.
\<close>

definition account_deleted :: string where
  "account_deleted =
     ''Your account has been successfully deleted. We'' @ [CHR 0xE2, CHR 0x80, CHR 0x99] @
     ''re sorry to see you go.''"

text \<open>The body of the \<^verbatim>\<open>try\<close> of \<^verbatim>\<open>delete_profile\<close>; the handler has no login check.\<close>

definition delete_profile_try :: "state \<Rightarrow> (py_error + response) \<times> state" where
  "delete_profile_try st =
     (let user_id = session_user_id st;
          st1 = log_call ''user_db.delete_user'' (st\<lparr>db := delete_user (db st) user_id\<rparr>);
          st2 = log_call ''user_db.serve_profile_picture'' st1;
          result = serve_profile_picture (db st2) user_id;
          removed =
            (case result of
               None \<Rightarrow> Inr st2
             | Some fname \<Rightarrow>
                 let picture_path = path_join PROFILE_UPLOADS fname in
                 if exists_and_isfile (fs st2) picture_path then
                   (case os_remove picture_path (fs st2) of
                      Inl e \<Rightarrow> Inl e
                    | Inr f' \<Rightarrow>
                        Inr (log_call ''user_db.delete_profile_pic''
                               (st2\<lparr>fs := f', db := delete_profile_pic (db st2) user_id\<rparr>)))
                 else Inr st2)
      in case removed of
           Inl e \<Rightarrow> (Inl e, st2)
         | Inr st3 \<Rightarrow>
             (case session_pop ''username'' st3 of
                Inl e \<Rightarrow> (Inl e, st3)
              | Inr st4 \<Rightarrow>
                  (case session_pop ''user_id'' st4 of
                     Inl e \<Rightarrow> (Inl e, st4)
                   | Inr st5 \<Rightarrow>
                       (case session_pop ''logged_in'' st5 of
                          Inl e \<Rightarrow> (Inl e, st5)
                        | Inr st6 \<Rightarrow>
                            (Inr (Redirect (UrlFor ''index'' [])), flash account_deleted st6)))))"

definition delete_failed :: string where
  "delete_failed = ''Something went wrong while deleting your account. Please try again.''"

text \<open>
  \<^verbatim>\<open>delete_profile\<close>: the \<^verbatim>\<open>except\<close> branch flashes and then calls \<^verbatim>\<open>url_for('profile')\<close>
  without the \<^verbatim>\<open>user_id\<close> that the route needs.
\<close>

definition delete_profile :: "state \<Rightarrow> (py_error + response) \<times> state" where
  "delete_profile st =
     (case delete_profile_try st of
        (Inl e, st') \<Rightarrow>
          (let st'' = flash delete_failed st' in
           case url_for ''profile'' [] of
             Inl b \<Rightarrow> (Inl b, st'')
           | Inr target \<Rightarrow> (Inr (Redirect target), st''))
      | (Inr r, st') \<Rightarrow> (Inr r, st'))"

text \<open>
  Modelled from the spec: \<^verbatim>\<open>helper.convert_None_to_string\<close>, which is not among the sources;
  the handler's comment says it converts fields with value \<^verbatim>\<open>None\<close> to 'Not Specified'.
\<close>

definition convert_None_to_string :: "pydict \<Rightarrow> pydict" where
  "convert_None_to_string d =
     map (\<lambda>c. if snd c = PNone then (fst c, PStr ''Not Specified'') else c) d"

text \<open>Python's \<^verbatim>\<open>v == 0\<close> and \<^verbatim>\<open>v == 1\<close> on a stored value (\<^verbatim>\<open>False == 0\<close>, \<^verbatim>\<open>True == 1\<close>).\<close>

definition py_eq_int :: "pval \<Rightarrow> int \<Rightarrow> bool" where
  "py_eq_int v n =
     (case v of PInt i \<Rightarrow> i = n | PBool b \<Rightarrow> (if b then 1 else 0) = n | _ \<Rightarrow> False)"

definition mentorship_text :: "pval \<Rightarrow> pval" where
  "mentorship_text v =
     (if py_eq_int v 0 then PStr ''Not Interested''
      else if py_eq_int v 1 then PStr ''Interested''
      else PStr ''Not Specified (Inactive User)'')"

definition profile :: "nat \<Rightarrow> state \<Rightarrow> (py_error + response) \<times> state" where
  "profile user_id st =
     (let (ok, st1) = is_logged_in st in
      if \<not> ok then (Inr (Redirect (UrlFor ''index'' [])), st1)
      else
        let session_uid = session_user_id st1;
            st2 = log_call ''user_db.get_profile'' st1;
            profile_data = get_profile (db st2) user_id
        in if profile_data \<noteq> None \<and> profile_data \<noteq> Some [] then
             (let data = convert_None_to_string (the_default [] profile_data) in
              case map_of data ''is_interested_in_mentorship'' of
                None \<Rightarrow> (Inl (KeyError ''is_interested_in_mentorship''), st2)
              | Some v \<Rightarrow>
                  (Inr (Render ''profile/view.html''
                          [(''page_title'', CStr ''View Profile''),
                           (''uid'', opt_nat session_uid),
                           (''src'', CStr (''/profile_pic/'' @ str_nat user_id)),
                           (''profile_uid'', CNat user_id),
                           (''profile_data'',
                            CDict (AList.update ''is_interested_in_mentorship''
                                     (mentorship_text v) data))]), st2))
           else (Inr (Redirect (UrlFor ''home'' [])), flash ''User profile not found..'' st2))"

subsection \<open>The value normalizer (helper.py; app.py, lines 293-301 and 382-388)\<close>

text \<open>
  Modelled from the spec: the kinds of field of section 4.1. Each field is of one kind:
  passed through, boolean-typed, or optional. Which field is of which kind is a table of
  the missing module \<^verbatim>\<open>helper.py\<close> and enters as the parameter \<open>kind\<close> below.
\<close>

datatype field_kind = PassThrough | BooleanTyped | OptionalField

text \<open>
  Modelled from the spec: string to boolean coercion (section 4.1: "true"/"on" become true,
  anything else false).
\<close>

definition to_bool :: "pval \<Rightarrow> pval" where
  "to_bool v = PBool (v = PStr ''true'' \<or> v = PStr ''on'')"

text \<open>
  Modelled from the spec: null coercion (section 4.1: the empty string and the string "None"
  become null).
\<close>

definition to_None :: "pval \<Rightarrow> pval" where
  "to_None v = (if v = PStr [] \<or> v = PStr ''None'' then PNone else v)"

text \<open>
  Modelled from the spec: \<^verbatim>\<open>helper.convert_to_bool\<close>, which is not among the sources
  (section 4.1): the boolean coercion on the boolean-typed fields, the others untouched.
\<close>

definition convert_to_bool :: "(string \<Rightarrow> field_kind) \<Rightarrow> pydict \<Rightarrow> pydict" where
  "convert_to_bool kind d =
     map (\<lambda>c. if kind (fst c) = BooleanTyped then (fst c, to_bool (snd c)) else c) d"

text \<open>
  Modelled from the spec: \<^verbatim>\<open>helper.convert_to_None\<close>, which is not among the sources
  (section 4.1): the null coercion on the optional fields, the others untouched.
\<close>

definition convert_to_None :: "(string \<Rightarrow> field_kind) \<Rightarrow> pydict \<Rightarrow> pydict" where
  "convert_to_None kind d =
     map (\<lambda>c. if kind (fst c) = OptionalField then (fst c, to_None (snd c)) else c) d"

text \<open>\<^verbatim>\<open>dict(request.form)\<close>: every key once, in order of appearance, with its first value.\<close>

fun dict_of_form :: "string multidict \<Rightarrow> pydict" where
  "dict_of_form [] = []"
| "dict_of_form (p # rest) =
     (fst p, PStr (snd p)) # dict_of_form (filter (\<lambda>q. fst q \<noteq> fst p) rest)"

text \<open>
  The dictionary that \<^verbatim>\<open>profile_setup\<close> and \<^verbatim>\<open>update_profile\<close> build from the form before
  the normalizer runs, and the one they store.
\<close>

definition raw_user_data :: "string multidict \<Rightarrow> pydict" where
  "raw_user_data form =
     (let user_data = dict_of_form form;
          career_interests = md_getlist form ''career_interests[]'';
          career_interests_str = join '', '' career_interests
      in AList.update ''career_interests'' (PStr career_interests_str) user_data)"

definition form_user_data :: "(string \<Rightarrow> field_kind) \<Rightarrow> string multidict \<Rightarrow> pydict" where
  "form_user_data kind form =
     (let user_data = raw_user_data form;
          user_data = convert_to_bool kind user_data;
          user_data = convert_to_None kind user_data
      in user_data)"

subsection \<open>Setting up and updating a profile (app.py, lines 273-405)\<close>


text \<open>
  Modelled from the spec: \<^verbatim>\<open>user_db.update_profile\<close>, which is not among the sources
  (section 3: profile attributes are edited later); the submitted columns are written into
  the row of the user, and a user without a row stays without.
\<close>

definition update_profile_db :: "store \<Rightarrow> nat option \<Rightarrow> pydict \<Rightarrow> store" where
  "update_profile_db d uid user_data =
     d\<lparr>user_tbl :=
         map (\<lambda>r. if Some (fst r) = uid
                  then (fst r, fold (\<lambda>c. AList.update (fst c) (snd c)) user_data (snd r))
                  else r)
           (user_tbl d)\<rparr>"

text \<open>
  Modelled from the spec: \<^verbatim>\<open>user_db.upload_profile_pic\<close>, which is not among the sources
  (section 3: an optional profile picture reference); the picture record of the user becomes
  the filename. A user identifier that is \<^verbatim>\<open>None\<close> touches no record.
\<close>

definition upload_profile_pic :: "store \<Rightarrow> nat option \<Rightarrow> string \<Rightarrow> store" where
  "upload_profile_pic d uid fname =
     (case uid of
        None \<Rightarrow> d
      | Some u \<Rightarrow> d\<lparr>picfile_tbl := AList.update u fname (picfile_tbl d)\<rparr>)"

text \<open>The set \<^verbatim>\<open>allowed_extensions\<close> of both profile handlers.\<close>

definition allowed_extensions :: "string list" where
  "allowed_extensions = [''png'', ''jpg'', ''jpeg'']"

definition invalid_picture_type :: string where
  "invalid_picture_type = ''Invalid file type. Only image files are allowed.''"

text \<open>\<^verbatim>\<open>s.split('.')[-1]\<close>: the text after the last dot, all of it without a dot.\<close>

definition split_dot_last :: "string \<Rightarrow> string" where
  "split_dot_last s = rev (takeWhile (\<lambda>c. c \<noteq> CHR ''.'') (rev s))"


text \<open>\<^verbatim>\<open>'{}.{}'.format(user_id, ext)\<close>; the identifier \<^verbatim>\<open>None\<close> prints as "None".\<close>

definition picture_name :: "nat option \<Rightarrow> string \<Rightarrow> string" where
  "picture_name user_id ext =
     (case user_id of None \<Rightarrow> ''None'' | Some u \<Rightarrow> str_nat u) @ ''.'' @ ext"

text \<open>
  \<^verbatim>\<open>redirect(url_for(endpoint, user_id=user_id))\<close>; \<^verbatim>\<open>url_for\<close> drops a value that is
  \<^verbatim>\<open>None\<close>.
\<close>

definition user_arg :: "nat option \<Rightarrow> (string \<times> ctx_val) list" where
  "user_arg user_id = (case user_id of None \<Rightarrow> [] | Some u \<Rightarrow> [(''user_id'', CNat u)])"

definition redirect_to ::
  "string \<Rightarrow> (string \<times> ctx_val) list \<Rightarrow> state \<Rightarrow> (py_error + response) \<times> state"
where
  "redirect_to endpoint values st =
     (case url_for endpoint values of
        Inl e \<Rightarrow> (Inl e, st)
      | Inr target \<Rightarrow> (Inr (Redirect target), st))"




text \<open>\<^verbatim>\<open>if profile_data.get('phone_number') is None: profile_data['phone_number'] = ""\<close>.\<close>

definition phone_fix :: "pydict \<Rightarrow> pydict" where
  "phone_fix d =
     (if map_of d ''phone_number'' = None \<or> map_of d ''phone_number'' = Some PNone
      then AList.update ''phone_number'' (PStr []) d
      else d)"

text \<open>
  The profile update form, as both the rejection of a picture and the end of
  \<^verbatim>\<open>update_profile\<close> render it: \<^verbatim>\<open>.get\<close> on a profile that is \<^verbatim>\<open>None\<close> raises.
\<close>

definition update_form :: "nat option \<Rightarrow> state \<Rightarrow> (py_error + response) \<times> state" where
  "update_form user_id st =
     (let st1 = log_call ''user_db.get_profile'' st in
      case (case user_id of None \<Rightarrow> None | Some u \<Rightarrow> get_profile (db st1) u) of
        None \<Rightarrow> (Inl (AttributeError none_has_no_get), st1)
      | Some profile_data \<Rightarrow>
          (case url_for ''profile_pic'' (user_arg user_id) of
             Inl e \<Rightarrow> (Inl e, st1)
           | Inr src \<Rightarrow>
               (Inr (Render ''profile/update.html''
                       [(''page_title'', CStr ''Profile Update''),
                        (''profile_data'', CDict (phone_fix profile_data)),
                        (''uid'', opt_nat user_id),
                        (''src'', CStr (''/profile_pic/'' @ str_nat (the_default 0 user_id)))]),
                st1)))"

text \<open>
  The picture part of \<^verbatim>\<open>update_profile\<close>: deleting the picture, or else taking a new one.
  The result \<open>Some r\<close> ends the request (the early return after a rejected picture, or an
  exception); \<open>None\<close> goes on to the profile update.
\<close>

definition update_profile_picture ::
  "(string \<Rightarrow> string) \<Rightarrow> nat option \<Rightarrow> string option \<Rightarrow> upload \<Rightarrow> state \<Rightarrow>
   (py_error + response) option \<times> state"
where
  "update_profile_picture sf user_id delete_file f st =
     (if delete_file = Some ''yes'' then
        (let st1 = log_call ''user_db.serve_profile_picture'' st in
         case serve_profile_picture (db st1) user_id of
           None \<Rightarrow> (None, st1)
         | Some fname \<Rightarrow>
             let picture_path = path_join PROFILE_UPLOADS fname in
             if exists_and_isfile (fs st1) picture_path then
               (case os_remove picture_path (fs st1) of
                  Inl e \<Rightarrow> (Some (Inl e), st1)
                | Inr f' \<Rightarrow>
                    (None,
                     flash ''Profile picture deleted successfully.''
                       (log_call ''user_db.delete_profile_pic''
                          (st1\<lparr>fs := f', db := delete_profile_pic (db st1) user_id\<rparr>))))
             else (None, st1))
      else if filename f \<noteq> [] then
        (let ext = split_dot_last (filename f) in
         if ext \<notin> set allowed_extensions then
           (let (r, st1) = update_form user_id (flash invalid_picture_type st) in (Some r, st1))
         else
           let fname = sf (picture_name user_id ext);
               pathname = path_join PROFILE_UPLOADS fname
           in case file_save pathname (fs st) of
                Inl e \<Rightarrow> (Some (Inl e), st)
              | Inr f' \<Rightarrow>
                  (None,
                   log_call ''user_db.upload_profile_pic''
                     (st\<lparr>fs := f', db := upload_profile_pic (db st) user_id fname\<rparr>)))
      else (None, st))"

text \<open>
  \<^verbatim>\<open>update_profile\<close>. A missing \<^verbatim>\<open>pic\<close> part raises at \<^verbatim>\<open>request.files['pic']\<close>, outside
  every \<^verbatim>\<open>try\<close>. The modelled query \<^verbatim>\<open>user_db.update_profile\<close> raises nothing, so the
  \<^verbatim>\<open>except\<close> branch around it, which would flash a failure and show the form, has no
  counterpart here.
\<close>

definition update_profile ::
  "(string \<Rightarrow> field_kind) \<Rightarrow> (string \<Rightarrow> string) \<Rightarrow> request \<Rightarrow> state \<Rightarrow>
   (py_error + response) \<times> state"
where
  "update_profile kind sf req st =
     (let (ok, st1) = is_logged_in st in
      if \<not> ok then (Inr (Redirect (UrlFor ''index'' [])), st1)
      else
        let user_id = session_user_id st1 in
        if req_method req = POST then
          (let delete_file = md_get (req_form req) ''delete_file'' in
           case md_get (req_files req) ''pic'' of
             None \<Rightarrow> (Inl (KeyError ''pic''), st1)
           | Some f \<Rightarrow>
               (case update_profile_picture sf user_id delete_file f st1 of
                  (Some r, st2) \<Rightarrow> (r, st2)
                | (None, st2) \<Rightarrow>
                    let user_data = form_user_data kind (req_form req);
                        st3 = log_call ''user_db.update_profile''
                                (st2\<lparr>db := update_profile_db (db st2) user_id user_data\<rparr>)
                    in redirect_to ''profile'' (user_arg user_id)
                         (flash ''Your profile was updated successfully!'' st3)))
        else update_form user_id st1)"

subsection \<open>Concrete stores, states and requests\<close>

definition empty_store :: store where
  "empty_store = \<lparr>post_tbl = [], post_file_tbl = [], user_tbl = [], picfile_tbl = []\<rparr>"

text \<open>A session as \<^verbatim>\<open>login\<close> leaves it, and a request without a session.\<close>

definition logged_in_as :: "nat \<Rightarrow> store \<Rightarrow> filesystem \<Rightarrow> state" where
  "logged_in_as u d f =
     \<lparr>session = [''user_id'' \<mapsto> SInt u, ''username'' \<mapsto> SStr ''ada'',
                 ''logged_in'' \<mapsto> SBool True, ''visits'' \<mapsto> SInt 1],
      flashes = [], db = d, fs = f, db_log = []\<rparr>"

definition anonymous :: "store \<Rightarrow> filesystem \<Rightarrow> state" where
  "anonymous d f = \<lparr>session = Map.empty, flashes = [], db = d, fs = f, db_log = []\<rparr>"

text \<open>
  One post (number 1, written by user 9) with one attachment, and user 5 with a profile and
  a picture record whose file is not in the upload directory.
\<close>

definition example_values :: post_values where
  "example_values =
     \<lparr>header = Some ''Networking Night'', post_type = Some ''event'',
      host_name = Some ''Career Center'', target_audience = Some ''students'',
      job_role = None, job_level = None, post_body = Some ''Bring your questions.''\<rparr>"

definition example_post :: post where
  "example_post = \<lparr>post_id = 1, posted_by = Some 9, created = 1, vals = example_values\<rparr>"

definition example_store :: store where
  "example_store =
     \<lparr>post_tbl = [example_post],
      post_file_tbl = [(1, ''1_flyer.pdf'')],
      user_tbl = [(5, [(''uid'', PInt 5), (''first_name'', PStr ''Ada''),
                       (''last_name'', PStr ''Byron''), (''major'', PStr ''CS''),
                       (''is_interested_in_mentorship'', PInt 1)])],
      picfile_tbl = [(5, ''5.png'')]\<rparr>"

definition example_fs :: filesystem where
  "example_fs =
     [(''uploads/post_uploads'', Directory), (''uploads/profile_pic_uploads'', Directory),
      (''uploads/post_uploads/1_flyer.pdf'', RegularFile)]"

text \<open>A feed of three posts, created in the order 1, 3, 2.\<close>

definition tips_post :: post where
  "tips_post =
     \<lparr>post_id = 2, posted_by = Some 5, created = 3,
      vals = example_values\<lparr>header := Some ''Summer internship'', post_type := Some ''job'',
                             post_body := Some ''Some networking tips inside.''\<rparr>\<rparr>"

definition panel_post :: post where
  "panel_post =
     \<lparr>post_id = 3, posted_by = Some 5, created = 2,
      vals = example_values\<lparr>header := Some ''Alumni panel'', post_body := None\<rparr>\<rparr>"

definition feed_store :: store where
  "feed_store = empty_store\<lparr>post_tbl := [example_post, tips_post, panel_post]\<rparr>"

definition empty_request :: "http_method \<Rightarrow> request" where
  "empty_request m = \<lparr>req_method = m, req_form = [], req_args = [], req_files = []\<rparr>"

definition delete_request :: request where
  "delete_request = (empty_request POST)\<lparr>req_form := [(''submit'', ''Delete Entire Post'')]\<rparr>"

text \<open>
  An update of post 1 that resubmits the stored values, deletes no file and carries no
  \<^verbatim>\<open>input_file\<close> part.
\<close>

definition unchanged_form :: "string multidict" where
  "unchanged_form =
     [(''header'', ''Networking Night''), (''post_type'', ''event''),
      (''host_name'', ''Career Center''), (''target_audience'', ''students''),
      (''post_body'', ''Bring your questions.''), (''submit'', ''Update Post'')]"

definition noop_edit_request :: request where
  "noop_edit_request = (empty_request POST)\<lparr>req_form := unchanged_form\<rparr>"

text \<open>A table of field kinds and a submitted profile form.\<close>

definition example_kind :: "string \<Rightarrow> field_kind" where
  "example_kind k =
     (if k = ''is_interested_in_mentorship'' then BooleanTyped
      else if k \<in> set [''minor'', ''second_major'', ''phone_number'', ''career_interests'']
      then OptionalField
      else PassThrough)"

definition example_form :: "string multidict" where
  "example_form =
     [(''first_name'', ''Ada''), (''is_interested_in_mentorship'', ''on''),
      (''minor'', ''None''), (''second_major'', ''''), (''phone_number'', ''555'')]"







text \<open>Whether a handler's outcome is a redirect.\<close>

definition is_redirect :: "py_error + response \<Rightarrow> bool" where
  "is_redirect r = (case r of Inr (Redirect t) \<Rightarrow> True | _ \<Rightarrow> False)"

section \<open>Properties\<close>

subsection \<open>Auxiliary facts about the state\<close>

lemma is_logged_in_yes: "session st ''user_id'' = Some v \<Longrightarrow> is_logged_in st = (True, st)"
  by (simp add: is_logged_in_def)

lemma is_logged_in_no:
  "session st ''user_id'' = None \<Longrightarrow>
   is_logged_in st = (False, flash ''Session has expired or you are not logged in.'' st)"
  by (simp add: is_logged_in_def)

lemma session_user_id_int:
  "session st ''user_id'' = Some (SInt u) \<Longrightarrow> session_user_id st = Some u"
  by (simp add: session_user_id_def)

lemma flash_fields [simp]:
  "session (flash m st) = session st"
  "db (flash m st) = db st"
  "fs (flash m st) = fs st"
  "flashes (flash m st) = flashes st @ [m]"
  "db_log (flash m st) = db_log st"
  by (simp_all add: flash_def)

lemma log_call_fields [simp]:
  "session (log_call n st) = session st"
  "db (log_call n st) = db st"
  "fs (log_call n st) = fs st"
  "flashes (log_call n st) = flashes st"
  "db_log (log_call n st) = db_log st @ [n]"
  by (simp_all add: log_call_def)

lemma session_user_id_kept [simp]:
  "session_user_id (flash m st) = session_user_id st"
  "session_user_id (log_call n st) = session_user_id st"
  by (simp_all add: session_user_id_def)

lemma logged_in_as_fields [simp]:
  "session (logged_in_as u d f) ''user_id'' = Some (SInt u)"
  "session (logged_in_as u d f) ''username'' = Some (SStr ''ada'')"
  "session (logged_in_as u d f) ''logged_in'' = Some (SBool True)"
  "db (logged_in_as u d f) = d"
  "fs (logged_in_as u d f) = f"
  "flashes (logged_in_as u d f) = []"
  "db_log (logged_in_as u d f) = []"
  by (simp_all add: logged_in_as_def)

subsection \<open>Serving attachments\<close>

lemma post_file_ignores_post_id: "post_file pid fname st = post_file pid' fname st"
  by (simp add: post_file_def)

text \<open>
  C8 (a post's attachments are only accessible through the owning post). The handler never
  looks at its post identifier: a logged-in request for post 2 and the filename
  \<^verbatim>\<open>1_flyer.pdf\<close> is answered with that file, although its only attachment record belongs to
  post 1 and post 2 has none.
\<close>

theorem post_file_serves_file_of_other_post:
  "fst (post_file 2 ''1_flyer.pdf'' (logged_in_as 5 example_store example_fs))
     = Inr (SendFromDirectory POST_UPLOADS ''1_flyer.pdf'')
   \<and> serve_post_file example_store 2 = []
   \<and> serve_post_file example_store 1 = [''1_flyer.pdf'']"
  by (simp add: post_file_def is_logged_in_yes serve_post_file_def example_store_def)

subsection \<open>The session gate\<close>

text \<open>
  C2 (every handler checks the login flag before touching the store). The handlers that call
  \<^verbatim>\<open>is_logged_in\<close> redirect to the welcome page without a query; \<^verbatim>\<open>delete_profile\<close> has no
  such check: without a session it calls \<^verbatim>\<open>delete_user\<close> and \<^verbatim>\<open>serve_profile_picture\<close> with the
  user identifier \<^verbatim>\<open>None\<close>, fails at \<^verbatim>\<open>session.pop('username')\<close>, flashes the failure
  message in its \<^verbatim>\<open>except\<close> branch and raises \<open>BuildError\<close> there, since \<^verbatim>\<open>url_for('profile')\<close>
  lacks the route's \<^verbatim>\<open>user_id\<close>: the request ends in an unhandled exception, not in a
  redirect.
\<close>

theorem delete_profile_without_login:
  "fst (delete_profile (anonymous example_store example_fs))
     = Inl (BuildError (build_error ''profile''))
   \<and> \<not> is_redirect (fst (delete_profile (anonymous example_store example_fs)))
   \<and> db_log (snd (delete_profile (anonymous example_store example_fs)))
       = [''user_db.delete_user'', ''user_db.serve_profile_picture'']
   \<and> flashes (snd (delete_profile (anonymous example_store example_fs))) = [delete_failed]"
  by (simp add: delete_profile_def delete_profile_try_def anonymous_def session_user_id_def
      serve_profile_picture_def session_pop_def url_for_def route_params_def is_redirect_def
      Let_def)

lemma gated_handlers:
  assumes "session st ''user_id'' = None"
  shows "post_file pid fname st = (Inr (Redirect (UrlFor ''index'' [])),
           flash ''Session has expired or you are not logged in.'' st)"
    and "profile uid st = (Inr (Redirect (UrlFor ''index'' [])),
           flash ''Session has expired or you are not logged in.'' st)"
    and "post_view fmt pid st = (Inr (Redirect (UrlFor ''index'' [])),
           flash ''Session has expired or you are not logged in.'' st)"
    and "create_post sf req st = (Inr (Redirect (UrlFor ''index'' [])),
           flash ''Session has expired or you are not logged in.'' st)"
    and "edit_post sf pid req st = (Inr (Redirect (UrlFor ''index'' [])),
           flash ''Session has expired or you are not logged in.'' st)"
    and "search_posts req st = (Inr (Redirect (UrlFor ''index'' [])),
           flash ''Session has expired or you are not logged in.'' st)"
    and "update_profile kind sf req st = (Inr (Redirect (UrlFor ''index'' [])),
           flash ''Session has expired or you are not logged in.'' st)"
  using assms
  by (simp_all add: post_file_def profile_def post_view_def create_post_def edit_post_def
      search_posts_def update_profile_def is_logged_in_no)

subsection \<open>Editing a post\<close>

text \<open>
  C3 (a post edit or delete request by a user who is not the author is refused and an
  authorization error is reported). For a logged-in user and a stored post of another
  author, every request to the edit route, whatever its method and form, is answered by the
  access-denied message and a redirect to the post; store and upload directory are as
  before.
\<close>

theorem edit_post_non_author_refused:
  assumes "session st ''user_id'' = Some (SInt u)"
    and "get_post_info (db st) pid = Some p"
    and "posted_by p \<noteq> Some u"
  shows "edit_post sf pid req st =
           (Inr (Redirect (UrlFor ''post'' [(''post_id'', CNat pid), (''uid'', CNat u)])),
            flash access_denied (log_call ''post_db.get_post_info'' st))
         \<and> db (snd (edit_post sf pid req st)) = db st
         \<and> fs (snd (edit_post sf pid req st)) = fs st
         \<and> flashes (snd (edit_post sf pid req st)) = flashes st @ [access_denied]"
proof -
  have uid: "session_user_id st = Some u"
    using assms(1) by (rule session_user_id_int)
  have "edit_post sf pid req st =
           (Inr (Redirect (UrlFor ''post'' [(''post_id'', CNat pid), (''uid'', CNat u)])),
            flash access_denied (log_call ''post_db.get_post_info'' st))"
    using assms uid by (simp add: edit_post_def is_logged_in_yes opt_nat_def)
  then show ?thesis by simp
qed

theorem edit_post_non_author_refused_witness:
  "get_post_info example_store 1 = Some example_post
   \<and> posted_by example_post \<noteq> Some 5
   \<and> fst (edit_post (\<lambda>n. n) 1 delete_request (logged_in_as 5 example_store example_fs))
       = Inr (Redirect (UrlFor ''post'' [(''post_id'', CNat 1), (''uid'', CNat 5)]))
   \<and> db (snd (edit_post (\<lambda>n. n) 1 delete_request (logged_in_as 5 example_store example_fs)))
       = example_store
   \<and> fs (snd (edit_post (\<lambda>n. n) 1 delete_request (logged_in_as 5 example_store example_fs)))
       = example_fs
   \<and> flashes (snd (edit_post (\<lambda>n. n) 1 delete_request (logged_in_as 5 example_store example_fs)))
       = [access_denied]"
proof -
  have found: "get_post_info (db (logged_in_as 5 example_store example_fs)) 1 = Some example_post"
    by (simp add: get_post_info_def example_store_def example_post_def)
  have other: "posted_by example_post \<noteq> Some 5"
    by (simp add: example_post_def)
  show ?thesis
    using edit_post_non_author_refused
      [of "logged_in_as 5 example_store example_fs" 5 1 example_post "\<lambda>n. n" delete_request]
      found other
    by simp
qed

subsection \<open>Searching posts\<close>

text \<open>
  C4 (a post-type filter equal to the sentinel "none" is treated as no post-type filter).
  Two query strings that agree on every parameter but the post type, one carrying
  \<^verbatim>\<open>post-type=none\<close> and the other no post type, get the same answer in every state.
\<close>

theorem search_posts_type_none_is_absent:
  assumes "md_get a1 ''post-type'' = Some ''none''"
    and "md_get a2 ''post-type'' = None"
    and "\<And>k. k \<noteq> ''post-type'' \<Longrightarrow> md_get a1 k = md_get a2 k"
  shows "search_posts (req\<lparr>req_args := a1\<rparr>) st = search_posts (req\<lparr>req_args := a2\<rparr>) st"
proof -
  have "md_get a1 ''user-input'' = md_get a2 ''user-input''"
    "md_get a1 ''target-audience'' = md_get a2 ''target-audience''"
    "md_get a1 ''host-name'' = md_get a2 ''host-name''"
    "md_get a1 ''job-role'' = md_get a2 ''job-role''"
    by (simp_all add: assms(3))
  then show ?thesis
    using assms(1,2) by (simp add: search_posts_def Let_def split: prod.split)
qed

theorem search_posts_type_none_is_absent_witness:
  "md_get [(''user-input'', ''night''), (''post-type'', ''none'')] ''post-type'' = Some ''none''
   \<and> md_get [(''user-input'', ''night'')] ''post-type'' = None
   \<and> search_posts ((empty_request GET)\<lparr>req_args := [(''user-input'', ''night''), (''post-type'', ''none'')]\<rparr>)
         (logged_in_as 5 example_store example_fs)
     = search_posts ((empty_request GET)\<lparr>req_args := [(''user-input'', ''night'')]\<rparr>)
         (logged_in_as 5 example_store example_fs)"
proof -
  have same: "\<And>k. k \<noteq> ''post-type'' \<Longrightarrow>
      md_get [(''user-input'', ''night''), (''post-type'', ''none'')] k
        = md_get [(''user-input'', ''night'')] k"
    by (simp add: md_get_def)
  have a: "md_get [(''user-input'', ''night''), (''post-type'', ''none'')] ''post-type'' = Some ''none''"
    by (simp add: md_get_def)
  have b: "md_get [(''user-input'', ''night'')] ''post-type'' = None"
    by (simp add: md_get_def)
  show ?thesis
    using search_posts_type_none_is_absent [OF a b same] a b by blast
qed

lemma by_recency_desc: "sorted_wrt (\<lambda>p q. created q \<le> created p) (by_recency ps)"
proof -
  have "sorted (map created (sort_key created ps))"
    by simp
  then have "sorted_wrt (\<lambda>p q. created p \<le> created q) (sort_key created ps)"
    by (simp add: sorted_wrt_map)
  then show ?thesis
    by (simp add: by_recency_def sorted_wrt_rev)
qed

lemma mset_by_recency: "mset (by_recency ps) = mset ps"
  by (simp add: by_recency_def)

lemma set_by_recency: "set (by_recency ps) = set ps"
  by (simp add: by_recency_def)

lemma sorted_wrt_take_drop:
  assumes "sorted_wrt R xs"
  shows "\<forall>x\<in>set (take n xs). \<forall>y\<in>set (drop n xs). R x y"
proof -
  have "sorted_wrt R (take n xs @ drop n xs)"
    using assms by simp
  then show ?thesis
    unfolding sorted_wrt_append by blast
qed

lemma latest_posts_are_most_recent:
  "sorted_wrt (\<lambda>p q. created q \<le> created p) (get_latest_posts d n)
   \<and> length (get_latest_posts d n) = min n (length (post_tbl d))
   \<and> (\<exists>rest. mset (get_latest_posts d n @ rest) = mset (post_tbl d)
         \<and> (\<forall>p\<in>set (get_latest_posts d n). \<forall>q\<in>set rest. created q \<le> created p))"
proof -
  let ?all = "by_recency (post_tbl d)"
  have sorted: "sorted_wrt (\<lambda>p q. created q \<le> created p) ?all"
    by (rule by_recency_desc)
  have 1: "sorted_wrt (\<lambda>p q. created q \<le> created p) (get_latest_posts d n)"
    unfolding get_latest_posts_def using sorted by (rule sorted_wrt_take)
  have "length ?all = length (post_tbl d)"
    by (simp add: by_recency_def)
  then have 2: "length (get_latest_posts d n) = min n (length (post_tbl d))"
    by (simp add: get_latest_posts_def min.commute)
  have "mset (take n ?all @ drop n ?all) = mset (post_tbl d)"
    by (simp add: mset_by_recency)
  moreover have "\<forall>p\<in>set (take n ?all). \<forall>q\<in>set (drop n ?all). created q \<le> created p"
    using sorted by (rule sorted_wrt_take_drop)
  ultimately have 3: "\<exists>rest. mset (get_latest_posts d n @ rest) = mset (post_tbl d)
         \<and> (\<forall>p\<in>set (get_latest_posts d n). \<forall>q\<in>set rest. created q \<le> created p)"
    unfolding get_latest_posts_def by blast
  from 1 2 3 show ?thesis by blast
qed

lemma search_posts_db_matching:
  "sorted_wrt (\<lambda>p q. created q \<le> created p) (search_posts_db d ui au ty ho ro)
   \<and> set (search_posts_db d ui au ty ho ro) = {p \<in> set (post_tbl d). post_matches ui au ty ho ro p}"
  by (auto simp add: search_posts_db_def sorted_wrt_filter by_recency_desc set_by_recency)

text \<open>
  C5 (the post search returns two result sets together: the posts matching the filters,
  most recent first, and independently the 10 most recent posts overall). For a request that
  passed the session gate, the page is rendered with both lists: the filtered list is ordered
  by recency descending and holds exactly the posts that match; the recent list does not
  depend on the request, is ordered the same way, has 10 entries (or all posts, when there
  are fewer), and no post left out of it is more recent than one of its entries.
\<close>

theorem search_posts_two_result_sets:
  assumes "session st ''user_id'' = Some v"
  shows "let recent = get_latest_posts (db st) 10;
             user_input = md_get (req_args req) ''user-input'';
             audience = md_get (req_args req) ''target-audience'';
             ptype = (if md_get (req_args req) ''post-type'' = Some ''none'' then None
                      else md_get (req_args req) ''post-type'');
             host = md_get (req_args req) ''host-name'';
             role = md_get (req_args req) ''job-role'';
             filtered = search_posts_db (db st) user_input audience ptype host role
         in fst (search_posts req st) =
              Inr (Render ''search/posts.html''
                     [(''page_title'', CStr ''Search Posts''), (''recent_posts'', CPosts recent),
                      (''filtered_posts'', CPosts filtered),
                      (''uid'', opt_nat (session_user_id st))])
            \<and> sorted_wrt (\<lambda>p q. created q \<le> created p) filtered
            \<and> set filtered =
                {p \<in> set (post_tbl (db st)). post_matches user_input audience ptype host role p}
            \<and> sorted_wrt (\<lambda>p q. created q \<le> created p) recent
            \<and> length recent = min 10 (length (post_tbl (db st)))
            \<and> (\<exists>rest. mset (recent @ rest) = mset (post_tbl (db st))
                  \<and> (\<forall>p\<in>set recent. \<forall>q\<in>set rest. created q \<le> created p))"
proof -
  have "fst (search_posts req st) =
          Inr (Render ''search/posts.html''
                 [(''page_title'', CStr ''Search Posts''),
                  (''recent_posts'', CPosts (get_latest_posts (db st) 10)),
                  (''filtered_posts'', CPosts (search_posts_db (db st)
                      (md_get (req_args req) ''user-input'')
                      (md_get (req_args req) ''target-audience'')
                      (if md_get (req_args req) ''post-type'' = Some ''none'' then None
                       else md_get (req_args req) ''post-type'')
                      (md_get (req_args req) ''host-name'')
                      (md_get (req_args req) ''job-role''))),
                  (''uid'', opt_nat (session_user_id st))])"
    using assms by (simp add: search_posts_def is_logged_in_yes Let_def)
  then show ?thesis
    unfolding Let_def
    using latest_posts_are_most_recent [of "db st" 10] search_posts_db_matching
    by blast
qed

lemma networking_query:
  "search_posts_db feed_store (Some ''networking'') None None None None = [tips_post, example_post]"
  by (simp add: search_posts_db_def feed_store_def empty_store_def by_recency_def post_matches_def
      example_post_def tips_post_def panel_post_def example_values_def contains_ci_def
      contains_text_def lower_def lower_char_def)

lemma feed_latest: "get_latest_posts feed_store 10 = [tips_post, panel_post, example_post]"
  by (simp add: get_latest_posts_def feed_store_def empty_store_def by_recency_def
      example_post_def tips_post_def panel_post_def)

theorem search_posts_two_result_sets_witness:
  "fst (search_posts ((empty_request GET)\<lparr>req_args := [(''user-input'', ''networking'')]\<rparr>)
          (logged_in_as 5 feed_store [])) =
     Inr (Render ''search/posts.html''
            [(''page_title'', CStr ''Search Posts''),
             (''recent_posts'', CPosts [tips_post, panel_post, example_post]),
             (''filtered_posts'', CPosts [tips_post, example_post]),
             (''uid'', CNat 5)])"
  using search_posts_two_result_sets
    [of "logged_in_as 5 feed_store []" "SInt 5"
        "(empty_request GET)\<lparr>req_args := [(''user-input'', ''networking'')]\<rparr>"]
  by (simp add: Let_def md_get_def networking_query feed_latest session_user_id_int opt_nat_def)


subsection \<open>Uploads with a disallowed extension\<close>







lemma flash_updates_fields [simp]:
  "db (flash_updates us st) = db st" "fs (flash_updates us st) = fs st"
  by (induction us arbitrary: st) (simp_all add: flash_updates_def)




lemma update_form_fields [simp]:
  "db (snd (update_form user_id st)) = db st"
  "fs (snd (update_form user_id st)) = fs st"
  "flashes (snd (update_form user_id st)) = flashes st"
  by (simp_all add: update_form_def Let_def split: option.split sum.split)






subsection \<open>An edit that changes nothing\<close>

lemma unchanged_form_values: "form_post_values unchanged_form = example_values"
  by (simp add: form_post_values_def unchanged_form_def example_values_def md_get_def)

lemma changed_fields_same: "changed_fields v v = []"
  by (simp add: changed_fields_def field_list_def)

lemma edit_post_db_same:
  "edit_post_db d pid p (vals p) = ([], d)"
  by (simp add: edit_post_db_def changed_fields_same cong: if_cong)

text \<open>
  C6 (an edit by the author that changes no field, uploads no file and deletes no file
  reports a distinct 'no changes' outcome). When the request has no \<^verbatim>\<open>input_file\<close> part,
  \<^verbatim>\<open>request.files.get\<close> is \<^verbatim>\<open>None\<close> and the \<^verbatim>\<open>elif\<close> test reads \<^verbatim>\<open>input_file.filename\<close>
  of it: the \<^verbatim>\<open>AttributeError\<close> is caught by the outer \<^verbatim>\<open>except\<close>, which flashes the
  unexpected-error message and redirects home. With an empty file part the message is
  the 'no changes' one (\<open>noop_edit_with_empty_file_part\<close>).
\<close>

theorem noop_edit_without_file_part_fails:
  "fst (edit_post (\<lambda>n. n) 1 noop_edit_request (logged_in_as 9 example_store example_fs))
     = Inr (Redirect (UrlFor ''home'' []))
   \<and> flashes (snd (edit_post (\<lambda>n. n) 1 noop_edit_request (logged_in_as 9 example_store example_fs)))
     = [''An unexpected error occurred: '' @ none_has_no_filename @ ''. Please try again.'']
   \<and> db (snd (edit_post (\<lambda>n. n) 1 noop_edit_request (logged_in_as 9 example_store example_fs)))
     = example_store"
proof -
  have found: "get_post_info example_store 1 = Some example_post"
    by (simp add: get_post_info_def example_store_def example_post_def)
  have same: "form_post_values (req_form noop_edit_request) = vals example_post"
    by (simp add: noop_edit_request_def unchanged_form_values example_post_def)
  have form: "md_get (req_form noop_edit_request) ''submit'' = Some ''Update Post''"
    "md_getlist (req_form noop_edit_request) ''delete_files[]'' = []"
    "md_get (req_files noop_edit_request) ''input_file'' = None"
    "req_method noop_edit_request = POST"
    by (simp_all add: noop_edit_request_def unchanged_form_def md_get_def md_getlist_def
        empty_request_def)
  have author: "posted_by example_post = Some 9"
    by (simp add: example_post_def)
  have body: "edit_post_try (\<lambda>n. n) 1 example_post noop_edit_request
               (log_call ''post_db.get_post_info'' (logged_in_as 9 example_store example_fs))
             = (Inl (AttributeError none_has_no_filename),
                log_call ''post_db.edit_post''
                  ((log_call ''post_db.get_post_info'' (logged_in_as 9 example_store example_fs))
                     \<lparr>db := example_store\<rparr>))"
    by (simp add: edit_post_try_def form same edit_post_db_same file_given_def no_changes_test_def)
  show ?thesis
    by (simp add: edit_post_def is_logged_in_yes session_user_id_int found author form
        edit_post_update_def body del: One_nat_def)
qed

lemma noop_edit_with_empty_file_part:
  assumes "session st ''user_id'' = Some (SInt u)"
    and "get_post_info (db st) pid = Some p"
    and "posted_by p = Some u"
    and "req_method req = POST"
    and "md_get (req_form req) ''submit'' \<noteq> Some ''Delete Entire Post''"
    and "form_post_values (req_form req) = vals p"
    and "md_getlist (req_form req) ''delete_files[]'' = []"
    and "md_get (req_files req) ''input_file'' = Some \<lparr>filename = []\<rparr>"
  shows "edit_post sf pid req st =
           (Inr (Redirect (UrlFor ''post'' [(''post_id'', CNat pid)])),
            flash ''No changes were made to the post.''
              (log_call ''post_db.edit_post''
                 ((log_call ''post_db.get_post_info'' st)\<lparr>db := db st\<rparr>)))"
proof -
  have body: "edit_post_try sf pid p req (log_call ''post_db.get_post_info'' st)
             = (Inr (Redirect (UrlFor ''post'' [(''post_id'', CNat pid)])),
                flash ''No changes were made to the post.''
                  (log_call ''post_db.edit_post''
                     ((log_call ''post_db.get_post_info'' st)\<lparr>db := db st\<rparr>)))"
    using assms(6-8)
    by (simp add: edit_post_try_def edit_post_db_same file_given_def no_changes_test_def
        upload_truthy_def)
  show ?thesis
    using assms(1-5)
    by (simp add: edit_post_def is_logged_in_yes session_user_id_int edit_post_update_def body)
qed

subsection \<open>Viewing what is not there\<close>

text \<open>
  C7 (a view request for an absent post or profile reports not-found and redirects). The
  profile view does (\<open>profile_absent_not_found\<close>); the post view has no such branch. For a
  logged-in request of post 7, which is not stored, it flashes nothing and never
  redirects, whatever \<^verbatim>\<open>format_post_values\<close> does with \<^verbatim>\<open>None\<close>; if that returns \<^verbatim>\<open>None\<close>
  the handler raises \<open>TypeError\<close> at \<^verbatim>\<open>post_info['header']\<close>.
\<close>

theorem post_view_absent_post:
  "\<not> is_redirect (fst (post_view fmt 7 (logged_in_as 5 example_store example_fs)))
   \<and> flashes (snd (post_view fmt 7 (logged_in_as 5 example_store example_fs))) = []
   \<and> get_post_info example_store 7 = None
   \<and> fst (post_view Inr 7 (logged_in_as 5 example_store example_fs))
       = Inl (TypeError none_not_subscriptable)"
proof -
  have absent: "get_post_info example_store 7 = None"
    by (simp add: get_post_info_def example_store_def example_post_def)
  have "\<not> is_redirect (fst (post_view fmt 7 (logged_in_as 5 example_store example_fs)))"
    by (simp add: post_view_def is_logged_in_yes is_redirect_def Let_def
        split: sum.split option.split)
  moreover have "flashes (snd (post_view fmt 7 (logged_in_as 5 example_store example_fs))) = []"
    by (simp add: post_view_def is_logged_in_yes Let_def split: sum.split option.split)
  moreover have "fst (post_view Inr 7 (logged_in_as 5 example_store example_fs))
       = Inl (TypeError none_not_subscriptable)"
    by (simp add: post_view_def is_logged_in_yes Let_def absent)
  ultimately show ?thesis
    using absent by simp
qed

lemma profile_absent_not_found:
  assumes "session st ''user_id'' = Some v"
    and "get_profile (db st) uid = None"
  shows "profile uid st =
           (Inr (Redirect (UrlFor ''home'' [])),
            flash ''User profile not found..'' (log_call ''user_db.get_profile'' st))"
  using assms by (simp add: profile_def is_logged_in_yes)


subsection \<open>The value normalizer\<close>

lemma map_of_convert_to_bool:
  "map_of (convert_to_bool kind d) k =
     map_option (\<lambda>v. if kind k = BooleanTyped then to_bool v else v) (map_of d k)"
  by (induction d) (auto simp add: convert_to_bool_def)

lemma map_of_convert_to_None:
  "map_of (convert_to_None kind d) k =
     map_option (\<lambda>v. if kind k = OptionalField then to_None v else v) (map_of d k)"
  by (induction d) (auto simp add: convert_to_None_def)

lemma keys_convert_to_bool: "map fst (convert_to_bool kind d) = map fst d"
  by (induction d) (simp_all add: convert_to_bool_def)

lemma keys_convert_to_None: "map fst (convert_to_None kind d) = map fst d"
  by (induction d) (simp_all add: convert_to_None_def)

lemma map_of_filter_other:
  "map_of (filter (\<lambda>q. fst q \<noteq> k) xs) k' = (if k' = k then None else map_of xs k')"
  by (induction xs) auto

lemma map_of_dict_of_form: "map_of (dict_of_form form) k = map_option PStr (map_of form k)"
proof (induction form rule: dict_of_form.induct)
  case 1
  then show ?case by simp
next
  case (2 p rest)
  then show ?case by (cases p) (simp add: map_of_filter_other)
qed

lemma map_of_raw_user_data:
  "map_of (raw_user_data form) k =
     (if k = ''career_interests''
      then Some (PStr (join '', '' (md_getlist form ''career_interests[]'')))
      else map_option PStr (md_get form k))"
  by (simp add: raw_user_data_def Let_def update_conv' map_of_dict_of_form md_get_def)

text \<open>
  C9 (the normalizer maps, for a boolean-typed field, "true" and "on" to true and any other
  string to false; for an optional field, the empty string and "None" to null; all other
  fields pass through unchanged). Stated for the dictionary that the profile handlers build
  from the form and hand to \<^verbatim>\<open>convert_to_bool\<close> and then \<^verbatim>\<open>convert_to_None\<close>; the keys and
  their order stay as they are.
\<close>

theorem normalizer_coercions:
  "(kind k = BooleanTyped \<and> map_of (raw_user_data form) k = Some (PStr s) \<longrightarrow>
      map_of (form_user_data kind form) k = Some (PBool (s = ''true'' \<or> s = ''on'')))
   \<and> (kind k = OptionalField \<and> map_of (raw_user_data form) k = Some (PStr s) \<longrightarrow>
      map_of (form_user_data kind form) k = Some (if s = [] \<or> s = ''None'' then PNone else PStr s))
   \<and> (kind k = PassThrough \<longrightarrow>
      map_of (form_user_data kind form) k = map_of (raw_user_data form) k)
   \<and> map fst (form_user_data kind form) = map fst (raw_user_data form)"
  by (cases "map_of (raw_user_data form) k")
    (auto simp add: form_user_data_def Let_def map_of_convert_to_None map_of_convert_to_bool
      keys_convert_to_None keys_convert_to_bool to_bool_def to_None_def)


theorem normalizer_coercions_witness:
  "map_of (form_user_data example_kind example_form) ''is_interested_in_mentorship'' = Some (PBool True)
   \<and> map_of (form_user_data example_kind example_form) ''minor'' = Some PNone
   \<and> map_of (form_user_data example_kind example_form) ''phone_number'' = Some (PStr ''555'')
   \<and> map_of (form_user_data example_kind example_form) ''first_name'' = Some (PStr ''Ada'')"
proof -
  have raw: "map_of (raw_user_data example_form) ''is_interested_in_mentorship'' = Some (PStr ''on'')"
    "map_of (raw_user_data example_form) ''minor'' = Some (PStr ''None'')"
    "map_of (raw_user_data example_form) ''phone_number'' = Some (PStr ''555'')"
    "map_of (raw_user_data example_form) ''first_name'' = Some (PStr ''Ada'')"
    by (simp_all add: map_of_raw_user_data md_get_def example_form_def)
  have kinds: "example_kind ''is_interested_in_mentorship'' = BooleanTyped"
    "example_kind ''minor'' = OptionalField"
    "example_kind ''phone_number'' = OptionalField"
    "example_kind ''first_name'' = PassThrough"
    by (simp_all add: example_kind_def)
  show ?thesis
    using normalizer_coercions [of example_kind "''is_interested_in_mentorship''" example_form "''on''"]
      normalizer_coercions [of example_kind "''minor''" example_form "''None''"]
      normalizer_coercions [of example_kind "''phone_number''" example_form "''555''"]
      normalizer_coercions [of example_kind "''first_name''" example_form "[]"]
      raw kinds
    by simp
qed

subsection \<open>Deleting an account\<close>

lemma map_of_nullify_row:
  "map_of (nullify_row row) c =
     (if c \<in> set identity_columns then map_of row c else map_option (\<lambda>v. PNone) (map_of row c))"
  by (induction row) (auto simp add: nullify_row_def)

lemma map_of_delete_user:
  "map_of (user_tbl (delete_user d (Some u))) u = map_option nullify_row (map_of (user_tbl d) u)"
proof -
  have "map_of (map (\<lambda>r. if Some (fst r) = Some u then (fst r, nullify_row (snd r)) else r) tbl) u
          = map_option nullify_row (map_of tbl u)" for tbl :: "(nat \<times> pydict) list"
    by (induction tbl) auto
  then show ?thesis
    by (simp add: delete_user_def)
qed

lemma picfile_delete_user [simp]: "picfile_tbl (delete_user d uid) = picfile_tbl d"
  by (simp add: delete_user_def)

lemma serve_after_delete_user [simp]:
  "serve_profile_picture (delete_user d uid) uid' = serve_profile_picture d uid'"
  by (simp add: serve_profile_picture_def split: option.split)

text \<open>
  In every state, with or without a session: unless the file of the user's picture record
  is in the upload directory, \<^verbatim>\<open>delete_profile\<close> leaves the picture table as it is.
\<close>

lemma delete_profile_picture_record_needs_file:
  assumes "\<And>fname. serve_profile_picture (db st) (session_user_id st) = Some fname \<Longrightarrow>
             \<not> exists_and_isfile (fs st) (path_join PROFILE_UPLOADS fname)"
  shows "picfile_tbl (db (snd (delete_profile st))) = picfile_tbl (db st)"
proof (cases "serve_profile_picture (db st) (session_user_id st)")
  case None
  then show ?thesis
    by (simp add: delete_profile_def delete_profile_try_def Let_def session_pop_def url_for_def
        route_params_def)
next
  case (Some fname)
  with assms have "\<not> exists_and_isfile (fs st) (path_join PROFILE_UPLOADS fname)"
    by simp
  with Some show ?thesis
    by (simp add: delete_profile_def delete_profile_try_def Let_def session_pop_def url_for_def
        route_params_def)
qed

text \<open>
  C10 (when the user has a picture record but the file is missing, \<^verbatim>\<open>delete_profile\<close>
  completes, nullifies the profile and clears the session, and leaves the picture record
  unchanged). For a session as login leaves it: the handler redirects to the welcome page
  with the success message, the store is the old one with the user's row nullified, the
  picture table and the upload directory are untouched, and the three login keys are
  popped from the session (other keys, such as the visit counter, stay).
\<close>

theorem delete_profile_keeps_picture_record_without_file:
  assumes "session st ''user_id'' = Some (SInt u)"
    and "session st ''username'' = Some n"
    and "session st ''logged_in'' = Some l"
    and "serve_profile_picture (db st) (Some u) = Some fname"
    and "\<not> exists_and_isfile (fs st) (path_join PROFILE_UPLOADS fname)"
  shows "fst (delete_profile st) = Inr (Redirect (UrlFor ''index'' []))
         \<and> picfile_tbl (db (snd (delete_profile st))) = picfile_tbl (db st)
         \<and> db (snd (delete_profile st)) = delete_user (db st) (Some u)
         \<and> map_of (user_tbl (db (snd (delete_profile st)))) u
             = map_option nullify_row (map_of (user_tbl (db st)) u)
         \<and> session (snd (delete_profile st))
             = (session st)(''username'' := None, ''user_id'' := None, ''logged_in'' := None)
         \<and> fs (snd (delete_profile st)) = fs st
         \<and> flashes (snd (delete_profile st)) = flashes st @ [account_deleted]"
proof -
  have uid: "session_user_id st = Some u"
    using assms(1) by (rule session_user_id_int)
  have pic: "serve_profile_picture (delete_user (db st) (Some u)) (Some u) = Some fname"
    using assms(4) by (simp add: serve_profile_picture_def)
  let ?st2 = "log_call ''user_db.serve_profile_picture''
                (log_call ''user_db.delete_user'' (st\<lparr>db := delete_user (db st) (Some u)\<rparr>))"
  have body: "delete_profile_try st =
      (Inr (Redirect (UrlFor ''index'' [])),
       flash account_deleted
         (?st2\<lparr>session := (session st)(''username'' := None, ''user_id'' := None,
                                          ''logged_in'' := None)\<rparr>))"
    using assms(1,2,3,5) uid pic
    by (simp add: delete_profile_try_def Let_def session_pop_def)
  show ?thesis
    by (simp add: delete_profile_def body map_of_delete_user)
qed

theorem delete_profile_keeps_picture_record_without_file_witness:
  "serve_profile_picture example_store (Some 5) = Some ''5.png''
   \<and> \<not> exists_and_isfile example_fs (path_join PROFILE_UPLOADS ''5.png'')
   \<and> fst (delete_profile (logged_in_as 5 example_store example_fs))
       = Inr (Redirect (UrlFor ''index'' []))
   \<and> picfile_tbl (db (snd (delete_profile (logged_in_as 5 example_store example_fs))))
       = [(5, ''5.png'')]
   \<and> map_of (user_tbl (db (snd (delete_profile (logged_in_as 5 example_store example_fs))))) 5
       = Some [(''uid'', PInt 5), (''first_name'', PStr ''Ada''), (''last_name'', PStr ''Byron''),
               (''major'', PNone), (''is_interested_in_mentorship'', PNone)]
   \<and> session (snd (delete_profile (logged_in_as 5 example_store example_fs))) ''user_id'' = None
   \<and> session (snd (delete_profile (logged_in_as 5 example_store example_fs))) ''visits''
       = Some (SInt 1)
   \<and> flashes (snd (delete_profile (logged_in_as 5 example_store example_fs))) = [account_deleted]"
proof -
  have pic: "serve_profile_picture (db (logged_in_as 5 example_store example_fs)) (Some 5) = Some ''5.png''"
    by (simp add: serve_profile_picture_def example_store_def)
  have nofile: "\<not> exists_and_isfile (fs (logged_in_as 5 example_store example_fs))
                    (path_join PROFILE_UPLOADS ''5.png'')"
    by (simp add: exists_and_isfile_def example_fs_def path_join_def PROFILE_UPLOADS_def)
  have row: "map_option nullify_row (map_of (user_tbl example_store) 5)
      = Some [(''uid'', PInt 5), (''first_name'', PStr ''Ada''), (''last_name'', PStr ''Byron''),
               (''major'', PNone), (''is_interested_in_mentorship'', PNone)]"
    by (simp add: example_store_def nullify_row_def identity_columns_def)
  have visits: "session (logged_in_as 5 example_store example_fs) ''visits'' = Some (SInt 1)"
    by (simp add: logged_in_as_def)
  have pics: "picfile_tbl example_store = [(5, ''5.png'')]"
    by (simp add: example_store_def)
  have h1: "session (logged_in_as 5 example_store example_fs) ''user_id'' = Some (SInt 5)"
    and h2: "session (logged_in_as 5 example_store example_fs) ''username'' = Some (SStr ''ada'')"
    and h3: "session (logged_in_as 5 example_store example_fs) ''logged_in'' = Some (SBool True)"
    by simp_all
  note th = delete_profile_keeps_picture_record_without_file [OF h1 h2 h3 pic nofile]
  let ?S = "logged_in_as 5 example_store example_fs"
  from th have a: "fst (delete_profile ?S) = Inr (Redirect (UrlFor ''index'' []))"
    and b: "picfile_tbl (db (snd (delete_profile ?S))) = picfile_tbl (db ?S)"
    and c: "map_of (user_tbl (db (snd (delete_profile ?S)))) 5
              = map_option nullify_row (map_of (user_tbl (db ?S)) 5)"
    and d: "session (snd (delete_profile ?S))
              = (session ?S)(''username'' := None, ''user_id'' := None, ''logged_in'' := None)"
    and e: "flashes (snd (delete_profile ?S)) = flashes ?S @ [account_deleted]"
    by blast+
  from c row have c': "map_of (user_tbl (db (snd (delete_profile ?S)))) 5
      = Some [(''uid'', PInt 5), (''first_name'', PStr ''Ada''), (''last_name'', PStr ''Byron''),
               (''major'', PNone), (''is_interested_in_mentorship'', PNone)]"
    by simp
  from d visits have d': "session (snd (delete_profile ?S)) ''user_id'' = None"
    "session (snd (delete_profile ?S)) ''visits'' = Some (SInt 1)"
    by simp_all
  from pic have pic': "serve_profile_picture example_store (Some 5) = Some ''5.png''"
    by simp
  from nofile have nofile': "\<not> exists_and_isfile example_fs (path_join PROFILE_UPLOADS ''5.png'')"
    by simp
  from b pics have b': "picfile_tbl (db (snd (delete_profile ?S))) = [(5, ''5.png'')]"
    by simp
  from e have e': "flashes (snd (delete_profile ?S)) = [account_deleted]"
    by simp
  from pic' nofile' a b' c' d' e' show ?thesis
    by blast
qed

end
